theory Spec2Isabelle
  imports Main "HOL-Library.Sublist" "HOL-Library.Char_ord" "HOL-Library.List_Lexorder"
    "HOL-Library.Multiset"
begin

section \<open>Strings: the Python and regex primitives used by create_plot.py\<close>

text \<open>
  A Python \<open>str\<close> is modelled as a \<open>string\<close>; a character stands for the code point
  with the same number, so the model covers text whose code points are below 256.

  \<open>isspace\<close> is the set of characters that \<open>str.strip()\<close> removes (the code points
  below 256 for which \<open>str.isspace\<close> holds).  \<open>re_space\<close> is the class \<open>\s\<close> of the
  \<open>regex\<close> module on a \<open>str\<close> pattern (the Unicode property White_Space); it lacks the
  four separators 0x1C..0x1F that \<open>str.isspace\<close> accepts.
\<close>

definition isspace :: "char \<Rightarrow> bool" where
  "isspace c = (c \<in> set [CHR 0x09, CHR 0x0A, CHR 0x0B, CHR 0x0C, CHR 0x0D,
                           CHR 0x1C, CHR 0x1D, CHR 0x1E, CHR 0x1F, CHR 0x20,
                           CHR 0x85, CHR 0xA0])"

definition re_space :: "char \<Rightarrow> bool" where
  "re_space c = (c \<in> set [CHR 0x09, CHR 0x0A, CHR 0x0B, CHR 0x0C, CHR 0x0D, CHR 0x20,
                            CHR 0x85, CHR 0xA0])"

text \<open>\<open>s.strip()\<close>: leading and trailing whitespace removed.\<close>

definition str_strip :: "string \<Rightarrow> string" where
  "str_strip s = rev (dropWhile isspace (rev (dropWhile isspace s)))"

text \<open>
  \<open>s.replace(old, new)\<close> for a non-empty \<open>old\<close>: the occurrences are found from left to
  right and do not overlap; the scan resumes after each replaced occurrence.  (The only
  call of the source passes the literal \<open>'[nationwide]'\<close>; for an empty \<open>old\<close> the
  function below returns \<open>s\<close> and is not a model of Python.)
\<close>

function str_replace :: "string \<Rightarrow> string \<Rightarrow> string \<Rightarrow> string" where
  "str_replace old new [] = []"
| "str_replace old new (c # cs) =
     (if old \<noteq> [] \<and> prefix old (c # cs)
      then new @ str_replace old new (drop (length old) (c # cs))
      else c # str_replace old new cs)"
  by pat_completeness auto
termination
  by (relation "measure (\<lambda>(old, new, s). length s)") (auto simp: neq_Nil_conv)

text \<open>
  The pattern \<open>\s\(.*?\)\<close>.  \<open>lazy_group r\<close> matches \<open>.*?\)\<close> at the head of \<open>r\<close>: the
  dot does not match a newline and the quantifier is lazy, so the match ends at the first
  closing parenthesis, and there is none when a newline comes before it.  The result is the
  text after the match.
\<close>

fun lazy_group :: "string \<Rightarrow> string option" where
  "lazy_group [] = None"
| "lazy_group (c # cs) =
     (if c = CHR '')'' then Some cs
      else if c = CHR 0x0A then None
      else lazy_group cs)"

fun match_here :: "string \<Rightarrow> string option" where
  "match_here (c # d # r) = (if re_space c \<and> d = CHR ''('' then lazy_group r else None)"
| "match_here _ = None"

text \<open>
  \<open>re.split(pattern, string)\<close>: the matches are searched from left to right, each search
  starting where the previous match ended; the pieces between the matches are returned, the
  first and the last included even when empty.  \<open>cur\<close> is the piece being read.
\<close>

function re_split_from :: "string \<Rightarrow> string \<Rightarrow> string list" where
  "re_split_from cur [] = [cur]"
| "re_split_from cur (c # cs) =
     (case match_here (c # cs) of
        Some rest \<Rightarrow> cur # re_split_from [] rest
      | None \<Rightarrow> re_split_from (cur @ [c]) cs)"
  by pat_completeness auto
termination
proof (relation "measure (\<lambda>(cur, s). length s)")
  have group: "lazy_group r = Some rest \<Longrightarrow> length rest < length r" for r rest
    by (induction r) (auto split: if_splits)
  have here: "match_here s = Some rest \<Longrightarrow> length rest < length s" for s rest
    by (cases s rule: match_here.cases) (auto split: if_splits dest: group)
  show "\<And>cur c cs x2. match_here (c # cs) = Some x2 \<Longrightarrow>
          (([], x2), cur, c # cs) \<in> measure (\<lambda>(cur, s). length s)"
    by (auto dest: here)
qed auto

definition re_split :: "string \<Rightarrow> string list" where
  "re_split s = re_split_from [] s"

section \<open>get_countries_from_string\<close>

definition get_countries_from_string :: "string \<Rightarrow> string list" where
  "get_countries_from_string string_val =
     (let string_list = re_split string_val
      in map (\<lambda>s. str_strip (str_replace ''[nationwide]'' '''' s))
             (filter (\<lambda>s. str_strip s \<noteq> '''') string_list))"

section \<open>Data frames\<close>

text \<open>
  A frame is the list of its rows in order; each row carries its index label and its cells.
  A cell of the scraped table is text or missing (\<open>None\<close>, pandas' NaN).  The \<open>country\<close>
  column of the caller's frame holds text before the call of
  \<open>clean_same_sex_marriage_data\<close> and lists of tokens after it, so a cell of that column
  is an \<open>entity\<close>.  \<open>reset_index()\<close> adds the column \<open>index\<close>; \<open>add_iso_code_to_data\<close> adds
  the column \<open>iso_code\<close>.
\<close>

datatype entity = Text string | Tokens "string list"

record ('y, 'c) row =
  label :: nat
  year :: 'y
  country :: 'c

record ('y, 'c) irow = "('y, 'c) row" +
  index :: nat

record ('y, 'c, 'i) crow = "('y, 'c) irow" +
  iso_code :: 'i

type_synonym raw_frame = "(string option, entity option) row list"

datatype error = TypeError | ValueError | OverflowError | AttributeError | OtherError

text \<open>A function that may raise, applied to the elements in order; the first raise ends it.\<close>

fun map_result :: "('a \<Rightarrow> error + 'b) \<Rightarrow> 'a list \<Rightarrow> error + 'b list" where
  "map_result f [] = Inr []"
| "map_result f (x # xs) =
     (case f x of
        Inl e \<Rightarrow> Inl e
      | Inr y \<Rightarrow> (case map_result f xs of Inl e \<Rightarrow> Inl e | Inr ys \<Rightarrow> Inr (y # ys)))"

section \<open>clean_same_sex_marriage_data\<close>

text \<open>Line 52, \<open>dropna(axis=0, inplace=True)\<close> on the caller's frame.\<close>

definition dropna_inplace :: "raw_frame \<Rightarrow> raw_frame" where
  "dropna_inplace df = filter (\<lambda>r. year r \<noteq> None \<and> country r \<noteq> None) df"

text \<open>
  Lines 53-54: the lambda is applied to every cell of the column and the column is
  assigned on the caller's frame.  \<open>re.split\<close> raises TypeError on a cell that is not text.
\<close>

fun tokens_of_cell :: "entity option \<Rightarrow> error + string list" where
  "tokens_of_cell (Some (Text x)) = Inr (get_countries_from_string x)"
| "tokens_of_cell _ = Inl TypeError"

definition map_country :: "raw_frame \<Rightarrow> error + raw_frame" where
  "map_country df =
     map_result (\<lambda>r. case tokens_of_cell (country r) of
                         Inl e \<Rightarrow> Inl e
                       | Inr ts \<Rightarrow> Inr (r\<lparr>country := Some (Tokens ts)\<rparr>)) df"

text \<open>
  Line 55, \<open>explode('country')\<close>: a list cell gives one row per element, with the label and
  the other cells repeated; an empty list gives one row with a missing cell; a cell that
  is no list stays.
\<close>

fun explode_cell :: "entity option \<Rightarrow> string option list" where
  "explode_cell None = [None]"
| "explode_cell (Some (Text x)) = [Some x]"
| "explode_cell (Some (Tokens [])) = [None]"
| "explode_cell (Some (Tokens ts)) = map Some ts"

definition explode :: "raw_frame \<Rightarrow> (string option, string option) row list" where
  "explode df =
     concat (map (\<lambda>r. map (\<lambda>c. \<lparr>label = label r, year = year r, country = c\<rparr>)
                           (explode_cell (country r))) df)"

text \<open>
  Line 55, \<open>reset_index()\<close>: the old labels become the column \<open>index\<close> and the rows are
  labelled 0, 1, 2, ...
\<close>

definition reset_index :: "('y, 'c) row list \<Rightarrow> ('y, 'c) irow list" where
  "reset_index df =
     map (\<lambda>(i, r). \<lparr>label = i, year = year r, country = country r, index = label r\<rparr>)
         (enumerate 0 df)"

text \<open>Line 56, \<open>dropna\<close> on the new frame: the rows that remain have no missing cell.\<close>

definition dropna :: "('y option, 'c option) irow list \<Rightarrow> ('y, 'c) irow list" where
  "dropna df =
     concat (map (\<lambda>r. case (year r, country r) of
                         (Some y, Some c) \<Rightarrow>
                           [\<lparr>label = label r, year = y, country = c, index = index r\<rparr>]
                       | _ \<Rightarrow> []) df)"

text \<open>Lines 57-60, \<open>replace\<close> with the dictionary of the two manual renamings.\<close>

definition alias_table :: "(string \<times> string) list" where
  "alias_table = [(''England and Wales'', ''United Kingdom''),
                  (''Taiwan'', ''Taiwan, Province of China'')]"

definition replace_value :: "string \<Rightarrow> string" where
  "replace_value c = (case map_of alias_table c of Some c' \<Rightarrow> c' | None \<Rightarrow> c)"

definition replace_country :: "('y, string) irow list \<Rightarrow> ('y, string) irow list" where
  "replace_country df = map (\<lambda>r. r\<lparr>country := replace_value (country r)\<rparr>) df"

text \<open>Line 61, \<open>df.loc[df['year'] != 'Pending']\<close>.\<close>

definition loc_not_pending :: "(string, 'c) irow list \<Rightarrow> (string, 'c) irow list" where
  "loc_not_pending df = filter (\<lambda>r. year r \<noteq> ''Pending'') df"

text \<open>
  Line 62, \<open>astype(int)\<close> on a column of text: every cell goes through Python's \<open>int\<close>
  and must then fit the 64-bit integer of the new column.  \<open>int\<close> skips surrounding
  whitespace, which for it is the set \<open>int_space\<close> (it does not skip the separators
  0x1C..0x1F that \<open>str.strip()\<close> removes); then it reads an optional sign and decimal
  digits that single underscores may separate.
\<close>

definition int_space :: "char \<Rightarrow> bool" where
  "int_space c = (c \<in> set [CHR 0x09, CHR 0x0A, CHR 0x0B, CHR 0x0C, CHR 0x0D, CHR 0x20,
                             CHR 0x85, CHR 0xA0])"

definition int_strip :: "string \<Rightarrow> string" where
  "int_strip s = rev (dropWhile int_space (rev (dropWhile int_space s)))"

definition is_digit :: "char \<Rightarrow> bool" where
  "is_digit c = (c \<in> set ''0123456789'')"

definition digit_val :: "char \<Rightarrow> nat" where
  "digit_val c = of_char c - 48"

fun parse_digits :: "nat \<Rightarrow> string \<Rightarrow> nat option" where
  "parse_digits acc [] = Some acc"
| "parse_digits acc [c] = (if is_digit c then Some (10 * acc + digit_val c) else None)"
| "parse_digits acc (c # d # r) =
     (if is_digit c then parse_digits (10 * acc + digit_val c) (d # r)
      else if c = CHR ''_'' \<and> is_digit d then parse_digits (10 * acc + digit_val d) r
      else None)"

definition parse_nat :: "string \<Rightarrow> nat option" where
  "parse_nat s = (case s of [] \<Rightarrow> None
                  | c # r \<Rightarrow> if is_digit c then parse_digits (digit_val c) r else None)"

definition py_int :: "string \<Rightarrow> int option" where
  "py_int s =
     (case int_strip s of
        [] \<Rightarrow> None
      | c # r \<Rightarrow>
          if c = CHR ''-'' then map_option (\<lambda>n. - int n) (parse_nat r)
          else if c = CHR ''+'' then map_option int (parse_nat r)
          else map_option int (parse_nat (c # r)))"

definition astype_int :: "string \<Rightarrow> error + int" where
  "astype_int s =
     (case py_int s of
        None \<Rightarrow> Inl ValueError
      | Some n \<Rightarrow> if - (2 ^ 63) \<le> n \<and> n < 2 ^ 63 then Inr n else Inl OverflowError)"

definition astype_int_year :: "(string, 'c) irow list \<Rightarrow> error + (int, 'c) irow list" where
  "astype_int_year df =
     map_result (\<lambda>r. case astype_int (year r) of
                         Inl e \<Rightarrow> Inl e
                       | Inr n \<Rightarrow> Inr \<lparr>label = label r, year = n, country = country r,
                                        index = index r\<rparr>) df"

text \<open>
  The frame of lines 55-61, before the coercion, and the whole function.  The first
  component of the result is the caller's frame after the call: lines 52-54 change it in
  place, and line 55 rebinds the local name to a new frame.
\<close>

definition expanded :: "raw_frame \<Rightarrow> (string, string) irow list" where
  "expanded df = loc_not_pending (replace_country (dropna (reset_index (explode df))))"

definition clean_same_sex_marriage_data ::
  "raw_frame \<Rightarrow> raw_frame \<times> (error + (int, string) irow list)" where
  "clean_same_sex_marriage_data same_sex_df =
     (let df1 = dropna_inplace same_sex_df
      in case map_country df1 of
           Inl e \<Rightarrow> (df1, Inl e)
         | Inr df2 \<Rightarrow> (df2, astype_int_year (expanded df2)))"

section \<open>get_iso_code_from_country and add_iso_code_to_data\<close>

text \<open>
  \<open>pycountry.countries.get(name=country)\<close> is a call into a library; its behaviour is a
  parameter \<open>countries_get\<close> of the model.  The call returns a country object, of which the
  source reads the attribute \<open>alpha_3\<close>, or returns \<open>None\<close>, or raises.
\<close>

record country_obj =
  alpha_3 :: string

datatype lookup = Found country_obj | NotFound | Raised error

text \<open>
  Lines 73-81.  On \<open>None\<close> the attribute access raises AttributeError, which the first
  handler turns into the result \<open>None\<close>; an AttributeError from inside the library ends
  the same way.  Any other exception is logged and raised again.
\<close>

definition get_iso_code_from_country :: "(string \<Rightarrow> lookup) \<Rightarrow> string \<Rightarrow> error + string option" where
  "get_iso_code_from_country countries_get country_name =
     (case countries_get country_name of
        Found info \<Rightarrow> Inr (Some (alpha_3 info))
      | NotFound \<Rightarrow> Inr None
      | Raised e \<Rightarrow> if e = AttributeError then Inr None else Inl e)"

text \<open>Line 88: the new column, computed cell by cell and assigned on the argument.\<close>

definition assign_iso_code ::
  "(string \<Rightarrow> lookup) \<Rightarrow> ('y, string) irow list \<Rightarrow> error + ('y, string, string option) crow list" where
  "assign_iso_code countries_get df =
     map_result (\<lambda>r. case get_iso_code_from_country countries_get (country r) of
                         Inl e \<Rightarrow> Inl e
                       | Inr c \<Rightarrow> Inr \<lparr>label = label r, year = year r, country = country r,
                                        index = index r, iso_code = c\<rparr>) df"

text \<open>Lines 90-92: the countries of the rows with a null code, as a sorted list.\<close>

definition unmatched_raw :: "('y, string, string option) crow list \<Rightarrow> string list" where
  "unmatched_raw df = map country (filter (\<lambda>r. iso_code r = None) df)"

definition unmatched_countries_str :: "('y, string, string option) crow list \<Rightarrow> string list" where
  "unmatched_countries_str df = sort (unmatched_raw df)"

text \<open>Line 95, \<open>dropna(axis=0, inplace=True)\<close>: only the new column can hold a null.\<close>

definition dropna_iso :: "('y, 'c, 'i option) crow list \<Rightarrow> ('y, 'c, 'i) crow list" where
  "dropna_iso df =
     concat (map (\<lambda>r. case iso_code r of
                         Some c \<Rightarrow> [\<lparr>label = label r, year = year r, country = country r,
                                      index = index r, iso_code = c\<rparr>]
                       | None \<Rightarrow> []) df)"

text \<open>
  The function returns its argument, the object it has changed in place: the frame of the
  result is the caller's frame after the call.  The second component is the list written
  to the debug log.
\<close>

definition add_iso_code_to_data ::
  "(string \<Rightarrow> lookup) \<Rightarrow> ('y, string) irow list
     \<Rightarrow> error + (('y, string, string) crow list \<times> string list)" where
  "add_iso_code_to_data countries_get same_sex_df =
     (case assign_iso_code countries_get same_sex_df of
        Inl e \<Rightarrow> Inl e
      | Inr df \<Rightarrow> Inr (dropna_iso df, unmatched_countries_str df))"

text \<open>Lines 122-123 of \<open>main\<close>: the cleaner, then the resolver on its result.\<close>

definition clean_and_resolve ::
  "(string \<Rightarrow> lookup) \<Rightarrow> raw_frame \<Rightarrow> error + (int, string, string) crow list" where
  "clean_and_resolve countries_get df =
     (case snd (clean_same_sex_marriage_data df) of
        Inl e \<Rightarrow> Inl e
      | Inr cleaned \<Rightarrow> map_sum id fst (add_iso_code_to_data countries_get cleaned))"

text \<open>A library backed by a finite table of exact names, for concrete evaluations.\<close>

definition table_get :: "(string \<times> string) list \<Rightarrow> string \<Rightarrow> lookup" where
  "table_get tbl name =
     (case map_of tbl name of Some c \<Rightarrow> Found \<lparr>alpha_3 = c\<rparr> | None \<Rightarrow> NotFound)"

section \<open>The periods that can be coerced\<close>

text \<open>
  What a numeric period is, said without the scanner: once the whitespace around it and
  one leading sign are taken away, the text is not empty, begins and ends with a digit,
  holds digits and underscores only and never two underscores in a row.  Its value is
  the decimal number that its digits spell, negated after a minus sign.
\<close>

definition unsigned :: "string \<Rightarrow> string" where
  "unsigned s =
     (case int_strip s of
        [] \<Rightarrow> []
      | c # r \<Rightarrow> if c = CHR ''-'' \<or> c = CHR ''+'' then r else c # r)"

definition numeral_text :: "string \<Rightarrow> bool" where
  "numeral_text b \<longleftrightarrow>
     b \<noteq> [] \<and> is_digit (hd b) \<and> is_digit (last b) \<and>
     list_all (\<lambda>c. is_digit c \<or> c = CHR ''_'') b \<and> \<not> sublist ''__'' b"

text \<open>The same for the text that follows the first digit, which may be empty.\<close>

definition tail_ok :: "string \<Rightarrow> bool" where
  "tail_ok s \<longleftrightarrow>
     list_all (\<lambda>c. is_digit c \<or> c = CHR ''_'') s \<and> (s = [] \<or> is_digit (last s)) \<and>
     \<not> sublist ''__'' s"

definition int_literal :: "string \<Rightarrow> bool" where
  "int_literal s = numeral_text (unsigned s)"

definition decimal :: "string \<Rightarrow> nat" where
  "decimal b = foldl (\<lambda>a c. 10 * a + digit_val c) 0 (filter is_digit b)"

definition literal_value :: "string \<Rightarrow> int" where
  "literal_value s =
     (if take 1 (int_strip s) = ''-'' then - int (decimal (unsigned s))
      else int (decimal (unsigned s)))"

definition fits_int64 :: "int \<Rightarrow> bool" where
  "fits_int64 n \<longleftrightarrow> - (2 ^ 63) \<le> n \<and> n < 2 ^ 63"

section \<open>The expansion the specification describes\<close>

text \<open>
  One record per extracted token, in document order and, within a row, in the order of
  extraction; the period is copied into each; rows with a missing cell and rows whose
  period is the sentinel contribute nothing.  A record is written (index, period, token).
\<close>

definition expansion :: "raw_frame \<Rightarrow> (nat \<times> string \<times> string) list" where
  "expansion df =
     concat (map (\<lambda>r. case (year r, country r) of
                         (Some y, Some (Text x)) \<Rightarrow>
                           if y = ''Pending'' then []
                           else map (\<lambda>t. (label r, y, t)) (get_countries_from_string x)
                       | _ \<Rightarrow> []) df)"

definition fields :: "('y, 'c, 'z) irow_scheme \<Rightarrow> nat \<times> 'y \<times> 'c" where
  "fields r = (index r, year r, country r)"

fun keep :: "nat \<times> 'y option \<times> 'c option \<Rightarrow> (nat \<times> 'y \<times> 'c) list" where
  "keep (i, Some y, Some c) = [(i, y, c)]"
| "keep _ = []"

text \<open>The frames of the examples, labelled 0, 1, ... as a new DataFrame is.\<close>

definition synthetic_table :: raw_frame where
  "synthetic_table =
     [\<lparr>label = 0, year = Some ''2001'', country = Some (Text ''Netherlands'')\<rparr>,
      \<lparr>label = 1, year = Some ''Pending'', country = Some (Text ''Example Country'')\<rparr>]"

definition spain_portugal :: raw_frame where
  "spain_portugal =
     [\<lparr>label = 0, year = Some ''2005'',
       country = Some (Text ''Spain (2005) Portugal (2010)'')\<rparr>]"

definition atlantis_twice :: "(int, string) irow list" where
  "atlantis_twice =
     [\<lparr>label = 0, year = 2001, country = ''Atlantis'', index = 0\<rparr>,
      \<lparr>label = 1, year = 2002, country = ''Atlantis'', index = 1\<rparr>]"

definition taiwan_table :: raw_frame where
  "taiwan_table =
     [\<lparr>label = 0, year = Some ''2019'', country = Some (Text ''Taiwan (2019)'')\<rparr>]"

definition bad_period_table :: raw_frame where
  "bad_period_table =
     [\<lparr>label = 0, year = Some ''circa 2001'', country = Some (Text ''Spain'')\<rparr>]"

definition overflow_table :: raw_frame where
  "overflow_table =
     [\<lparr>label = 0, year = Some ''9223372036854775808'', country = Some (Text ''Spain'')\<rparr>]"

definition pending_rows :: "(string, string) irow list" where
  "pending_rows =
     [\<lparr>label = 0, year = ''2001'', country = ''Netherlands'', index = 0\<rparr>,
      \<lparr>label = 1, year = ''Pending'', country = ''Example Country'', index = 1\<rparr>]"

section \<open>Lemmas on the stages of the cleaner\<close>

lemma map_result_Inr_iff:
  "map_result f xs = Inr ys \<longleftrightarrow> list_all2 (\<lambda>x y. f x = Inr y) xs ys"
proof (induction xs arbitrary: ys)
  case Nil
  then show ?case by auto
next
  case (Cons a xs)
  show ?case
  proof (cases "f a")
    case (Inl e)
    then show ?thesis by (simp add: list_all2_Cons1)
  next
    case fa: (Inr y)
    show ?thesis
    proof (cases "map_result f xs")
      case (Inl e)
      with Cons.IH have "\<not> list_all2 (\<lambda>x y. f x = Inr y) xs zs" for zs by simp
      with fa Inl show ?thesis by (simp add: list_all2_Cons1)
    next
      case (Inr zs)
      with Cons.IH have "list_all2 (\<lambda>x y. f x = Inr y) xs us \<longleftrightarrow> zs = us" for us by simp
      with fa Inr show ?thesis by (auto simp: list_all2_Cons1)
    qed
  qed
qed

lemma map_result_Inl_iff:
  "(\<exists>e. map_result f xs = Inl e) \<longleftrightarrow> (\<exists>x\<in>set xs. \<exists>e. f x = Inl e)"
  by (induction xs) (auto split: sum.splits)

lemma fields_reset_index:
  "map fields (reset_index xs) = map (\<lambda>x. (label x, year x, country x)) xs"
proof -
  have "map fields (reset_index xs) = map ((\<lambda>x. (label x, year x, country x)) \<circ> snd) (enumerate 0 xs)"
    by (simp add: reset_index_def fields_def case_prod_unfold comp_def)
  also have "\<dots> = map (\<lambda>x. (label x, year x, country x)) xs"
    by (simp add: map_snd_enumerate flip: map_map)
  finally show ?thesis .
qed

lemma fields_dropna: "map fields (dropna xs) = concat (map keep (map fields xs))"
  by (induction xs) (auto simp: dropna_def fields_def split: option.splits)

lemma fields_replace_country:
  "map fields (replace_country xs) = map (\<lambda>(i, y, c). (i, y, replace_value c)) (map fields xs)"
  by (simp add: replace_country_def fields_def)

lemma fields_loc_not_pending:
  "map fields (loc_not_pending xs) = filter (\<lambda>(i, y, c). y \<noteq> ''Pending'') (map fields xs)"
  by (simp add: loc_not_pending_def fields_def filter_map comp_def)

lemma map_country_Inr:
  assumes "map_country df = Inr df2"
  shows "list_all2 (\<lambda>r r2. \<exists>x. country r = Some (Text x) \<and>
           r2 = r\<lparr>country := Some (Tokens (get_countries_from_string x))\<rparr>) df df2"
  using assms unfolding map_country_def map_result_Inr_iff
  by (rule list_all2_mono) (auto split: sum.splits elim: tokens_of_cell.elims)

lemma keep_Some_tokens:
  "concat (map (\<lambda>t. keep (l, Some y, Some t)) ts) = map (\<lambda>t. (l, y, t)) ts"
  by (induction ts) auto

lemma keep_None_year: "concat (map (\<lambda>c. keep (l, None, c)) cs) = []"
  by (induction cs) auto

lemma explode_Cons:
  "explode (r # rs) =
     map (\<lambda>c. \<lparr>label = label r, year = year r, country = c\<rparr>) (explode_cell (country r))
     @ explode rs"
  by (simp add: explode_def)

lemma keep_exploded_row:
  "concat (map (\<lambda>c. keep (l, yo, c)) (explode_cell (Some (Tokens ts)))) =
     (case yo of None \<Rightarrow> [] | Some y \<Rightarrow> map (\<lambda>t. (l, y, t)) ts)"
proof (cases yo)
  case None
  then show ?thesis by (simp add: keep_None_year)
next
  case (Some y)
  then show ?thesis by (cases ts) (simp_all add: keep_Some_tokens comp_def)
qed

lemma expanded_fields_aux:
  assumes "list_all2 (\<lambda>r r2. \<exists>x. country r = Some (Text x) \<and>
           r2 = r\<lparr>country := Some (Tokens (get_countries_from_string x))\<rparr>) df df2"
  shows "concat (map keep (map (\<lambda>x. (label x, year x, country x)) (explode df2)))
       = concat (map (\<lambda>r. case (year r, country r) of
                         (Some y, Some (Text x)) \<Rightarrow> map (\<lambda>t. (label r, y, t)) (get_countries_from_string x)
                       | _ \<Rightarrow> []) df)"
  using assms
proof (induction rule: list_all2_induct)
  case Nil
  then show ?case by (simp add: explode_def)
next
  case (Cons r xs r2 ys)
  then obtain x where x: "country r = Some (Text x)"
    "r2 = r\<lparr>country := Some (Tokens (get_countries_from_string x))\<rparr>" by auto
  have "concat (map keep (map (\<lambda>x. (label x, year x, country x)) (explode (r2 # ys)))) =
        concat (map (\<lambda>c. keep (label r, year r, c))
                  (explode_cell (Some (Tokens (get_countries_from_string x)))))
        @ concat (map keep (map (\<lambda>x. (label x, year x, country x)) (explode ys)))"
    by (simp add: explode_Cons x comp_def)
  then show ?case using x(1) Cons.IH
    by (simp add: keep_exploded_row split: option.splits)
qed

lemma expanded_fields:
  assumes "map_country (dropna_inplace df) = Inr df2"
  shows "map fields (expanded df2) = map (\<lambda>(i, y, t). (i, y, replace_value t)) (expansion df)"
proof -
  let ?row = "\<lambda>r. case (year r, country r) of
                         (Some y, Some (Text x)) \<Rightarrow> map (\<lambda>t. (label r, y, t)) (get_countries_from_string x)
                       | _ \<Rightarrow> []"
  have a: "concat (map keep (map (\<lambda>x. (label x, year x, country x)) (explode df2)))
         = concat (map ?row (dropna_inplace df))"
    by (rule expanded_fields_aux[OF map_country_Inr[OF assms]])
  have b: "concat (map ?row (dropna_inplace df)) = concat (map ?row df)"
    by (induction df) (auto simp: dropna_inplace_def split: option.splits)
  have c: "filter (\<lambda>(i, y, c). y \<noteq> ''Pending'') (concat (map ?row df)) = expansion df"
    unfolding expansion_def
    by (induction df) (auto split: option.splits entity.splits simp: filter_map comp_def)
  have "map fields (expanded df2) =
        filter (\<lambda>(i, y, c). y \<noteq> ''Pending'')
          (map (\<lambda>(i, y, c). (i, y, replace_value c)) (concat (map ?row df)))"
    unfolding expanded_def
    by (simp only: fields_loc_not_pending fields_replace_country fields_dropna
          fields_reset_index a b)
  also have "\<dots> = map (\<lambda>(i, y, c). (i, y, replace_value c))
                     (filter (\<lambda>(i, y, c). y \<noteq> ''Pending'') (concat (map ?row df)))"
    by (simp add: filter_map comp_def case_prod_unfold)
  finally show ?thesis by (simp only: c)
qed

lemma astype_int_year_Inr:
  "astype_int_year xs = Inr out \<longleftrightarrow>
     list_all2 (\<lambda>r q. astype_int (year r) = Inr (year q) \<and> label q = label r \<and>
                       index q = index r \<and> country q = country r) xs out"
  unfolding astype_int_year_def map_result_Inr_iff
  by (rule arg_cong2[where f="\<lambda>P. list_all2 P xs", OF _ refl]) (auto split: sum.splits intro!: ext)

lemma astype_int_year_Inl:
  "(\<exists>e. astype_int_year xs = Inl e) \<longleftrightarrow> (\<exists>r\<in>set xs. \<exists>e. astype_int (year r) = Inl e)"
proof -
  have "(\<exists>e. (case astype_int (year r) of Inl e \<Rightarrow> Inl e
               | Inr n \<Rightarrow> Inr \<lparr>label = label r, year = n, country = country r,
                                index = index r\<rparr>) = Inl e)
        \<longleftrightarrow> (\<exists>e. astype_int (year r) = Inl e)" for r :: "(string, 'a) irow"
    by (cases "astype_int (year r)") auto
  then show ?thesis
    unfolding astype_int_year_def map_result_Inl_iff by simp
qed

lemma clean_synthetic:
  "clean_same_sex_marriage_data synthetic_table =
     ([\<lparr>label = 0, year = Some ''2001'', country = Some (Tokens [''Netherlands''])\<rparr>,
       \<lparr>label = 1, year = Some ''Pending'', country = Some (Tokens [''Example Country''])\<rparr>],
      Inr [\<lparr>label = 0, year = 2001, country = ''Netherlands'', index = 0\<rparr>])"
  by (simp add: clean_same_sex_marriage_data_def synthetic_table_def dropna_inplace_def
      map_country_def get_countries_from_string_def re_split_def str_strip_def isspace_def
      re_space_def expanded_def explode_def reset_index_def dropna_def replace_country_def
      replace_value_def alias_table_def loc_not_pending_def astype_int_year_def astype_int_def
      py_int_def int_strip_def int_space_def parse_nat_def is_digit_def digit_val_def)

lemma clean_spain_portugal:
  "clean_same_sex_marriage_data spain_portugal =
     ([\<lparr>label = 0, year = Some ''2005'', country = Some (Tokens [''Spain'', ''Portugal''])\<rparr>],
      Inr [\<lparr>label = 0, year = 2005, country = ''Spain'', index = 0\<rparr>,
           \<lparr>label = 1, year = 2005, country = ''Portugal'', index = 0\<rparr>])"
  by (simp add: clean_same_sex_marriage_data_def spain_portugal_def dropna_inplace_def
      map_country_def get_countries_from_string_def re_split_def str_strip_def isspace_def
      re_space_def expanded_def explode_def reset_index_def dropna_def replace_country_def
      replace_value_def alias_table_def loc_not_pending_def astype_int_year_def astype_int_def
      py_int_def int_strip_def int_space_def parse_nat_def is_digit_def digit_val_def)

lemma assign_iso_code_Inr:
  assumes "assign_iso_code countries_get df = Inr df1"
  shows "list_all2 (\<lambda>r q. get_iso_code_from_country countries_get (country r) = Inr (iso_code q)
            \<and> country q = country r) df df1"
  using assms unfolding assign_iso_code_def map_result_Inr_iff
  by (rule list_all2_mono) (auto split: sum.splits)

lemma unmatched_raw_assign:
  assumes "list_all2 (\<lambda>r q. get_iso_code_from_country countries_get (country r) = Inr (iso_code q)
            \<and> country q = country r) df df1"
  shows "unmatched_raw df1 =
         map country (filter (\<lambda>r. get_iso_code_from_country countries_get (country r) = Inr None) df)"
  using assms by (induction rule: list_all2_induct) (auto simp: unmatched_raw_def)

lemma clean_cases:
  "(\<exists>df2. map_country (dropna_inplace df) = Inr df2 \<and>
      clean_same_sex_marriage_data df = (df2, astype_int_year (expanded df2))) \<or>
   (\<exists>e. map_country (dropna_inplace df) = Inl e \<and>
      clean_same_sex_marriage_data df = (dropna_inplace df, Inl e))"
  by (cases "map_country (dropna_inplace df)") (simp_all add: clean_same_sex_marriage_data_def)

lemma list_all2_fields:
  assumes "list_all2 P xs out" and "map fields xs = map g es"
    and "\<And>x q e. P x q \<Longrightarrow> fields x = g e \<Longrightarrow> Q q e"
  shows "list_all2 Q out es"
proof -
  have len: "length xs = length out" "length xs = length es"
    using assms(1,2) by (auto dest: list_all2_lengthD map_eq_imp_length_eq)
  show ?thesis
  proof (rule list_all2_all_nthI)
    show "length out = length es" using len by simp
  next
    fix n assume n: "n < length out"
    then have "P (xs ! n) (out ! n)" using assms(1) len by (simp add: list_all2_conv_all_nth)
    moreover have "fields (xs ! n) = g (es ! n)"
      using arg_cong[OF assms(2), of "\<lambda>l. l ! n"] n len by simp
    ultimately show "Q (out ! n) (es ! n)" by (rule assms(3))
  qed
qed

lemma clean_Inr:
  assumes "snd (clean_same_sex_marriage_data df) = Inr out"
  shows "list_all2 (\<lambda>q (i, y, t). index q = i \<and> astype_int y = Inr (year q) \<and>
                      country q = replace_value t) out (expansion df)"
proof -
  from assms clean_cases[of df] obtain df2
    where m: "map_country (dropna_inplace df) = Inr df2"
      and a: "astype_int_year (expanded df2) = Inr out"
    by auto
  show ?thesis
    by (rule list_all2_fields[OF a[unfolded astype_int_year_Inr] expanded_fields[OF m]])
       (auto simp: fields_def)
qed

lemma in_expansion:
  "(i, y, t) \<in> set (expansion df) \<longleftrightarrow>
     (\<exists>r\<in>set df. \<exists>x. label r = i \<and> year r = Some y \<and> y \<noteq> ''Pending'' \<and>
        country r = Some (Text x) \<and> t \<in> set (get_countries_from_string x))"
proof (induction df)
  case Nil
  then show ?case by (simp add: expansion_def)
next
  case (Cons r df)
  have "expansion (r # df) =
        (case (year r, country r) of
           (Some y, Some (Text x)) \<Rightarrow>
             if y = ''Pending'' then []
             else map (\<lambda>t. (label r, y, t)) (get_countries_from_string x)
         | _ \<Rightarrow> []) @ expansion df"
    by (simp add: expansion_def)
  then show ?case using Cons.IH
    by (cases "year r"; cases "country r"; (cases "the (country r)")?) auto
qed

lemma map_country_scraped:
  assumes "\<forall>r\<in>set df. \<forall>ts. country r \<noteq> Some (Tokens ts)"
  shows "\<exists>df2. map_country (dropna_inplace df) = Inr df2"
proof (cases "map_country (dropna_inplace df)")
  case (Inl e)
  then have "\<exists>e. map_country (dropna_inplace df) = Inl e" by blast
  then obtain r e' where r: "r \<in> set (dropna_inplace df)"
    and f: "(case tokens_of_cell (country r) of Inl e \<Rightarrow> Inl e
             | Inr ts \<Rightarrow> Inr (r\<lparr>country := Some (Tokens ts)\<rparr>)) = Inl e'"
    unfolding map_country_def map_result_Inl_iff by blast
  from r assms obtain x where "country r = Some (Text x)"
    by (cases "country r"; cases "the (country r)") (auto simp: dropna_inplace_def)
  with f show ?thesis by simp
next
  case (Inr df2)
  then show ?thesis by blast
qed

lemmas eval_defs = clean_same_sex_marriage_data_def dropna_inplace_def
      map_country_def get_countries_from_string_def re_split_def str_strip_def isspace_def
      re_space_def expanded_def explode_def reset_index_def dropna_def replace_country_def
      replace_value_def alias_table_def loc_not_pending_def astype_int_year_def astype_int_def
      py_int_def int_strip_def int_space_def parse_nat_def is_digit_def digit_val_def

lemma clean_taiwan:
  "snd (clean_same_sex_marriage_data taiwan_table) =
      Inr [\<lparr>label = 0, year = 2019, country = ''Taiwan, Province of China'', index = 0\<rparr>]"
  by (simp add: taiwan_table_def eval_defs)

lemma clean_bad_period:
  "snd (clean_same_sex_marriage_data bad_period_table) = Inl ValueError"
  by (simp add: bad_period_table_def eval_defs)

lemma expansion_examples:
  "expansion synthetic_table = [(0, ''2001'', ''Netherlands'')]"
  "expansion spain_portugal = [(0, ''2005'', ''Spain''), (0, ''2005'', ''Portugal'')]"
  "expansion taiwan_table = [(0, ''2019'', ''Taiwan'')]"
  "expansion bad_period_table = [(0, ''circa 2001'', ''Spain'')]"
  by (simp_all add: expansion_def synthetic_table_def spain_portugal_def taiwan_table_def
      bad_period_table_def get_countries_from_string_def re_split_def str_strip_def isspace_def
      re_space_def)

lemma astype_int_examples:
  "astype_int ''2001'' = Inr 2001" "astype_int ''2005'' = Inr 2005"
  "astype_int ''2019'' = Inr 2019" "astype_int ''Pending'' = Inl ValueError"
  "astype_int ''circa 2001'' = Inl ValueError"
  by (simp_all add: astype_int_def py_int_def int_strip_def int_space_def parse_nat_def
      is_digit_def digit_val_def)

lemma digit_not_underscore: "is_digit c \<Longrightarrow> c \<noteq> CHR ''_''"
  by (auto simp: is_digit_def)

lemma sublist_uu_Cons:
  "sublist ''__'' (c # s) \<longleftrightarrow> (c = CHR ''_'' \<and> (\<exists>r. s = CHR ''_'' # r)) \<or> sublist ''__'' s"
  by (cases s) (auto simp: sublist_Cons_right)

lemma tail_ok_simps:
  "tail_ok []"
  "tail_ok [c] \<longleftrightarrow> is_digit c"
  "is_digit c \<Longrightarrow> tail_ok (c # d # r) \<longleftrightarrow> tail_ok (d # r)"
  "is_digit d \<Longrightarrow> tail_ok (CHR ''_'' # d # r) \<longleftrightarrow> tail_ok r"
  "\<not> is_digit c \<Longrightarrow> \<not> is_digit d \<Longrightarrow> \<not> tail_ok (c # d # r)"
  "\<not> is_digit c \<Longrightarrow> c \<noteq> CHR ''_'' \<Longrightarrow> \<not> tail_ok (c # s)"
  by (auto simp: tail_ok_def sublist_uu_Cons dest: digit_not_underscore)

lemma parse_digits_eq:
  "parse_digits acc s =
     (if tail_ok s then Some (foldl (\<lambda>a c. 10 * a + digit_val c) acc (filter is_digit s)) else None)"
proof (induction acc s rule: parse_digits.induct)
  case (1 acc)
  then show ?case by (simp add: tail_ok_simps)
next
  case (2 acc c)
  then show ?case by (simp add: tail_ok_simps)
next
  case (3 acc c d r)
  show ?case
  proof (cases "is_digit c")
    case True
    with 3 show ?thesis by (simp add: tail_ok_simps)
  next
    case nc: False
    show ?thesis
    proof (cases "c = CHR ''_'' \<and> is_digit d")
      case True
      with 3 nc show ?thesis by (simp add: tail_ok_simps)
    next
      case False
      with nc have "\<not> tail_ok (c # d # r)"
        by (cases "c = CHR ''_''") (auto simp: tail_ok_simps)
      with nc False show ?thesis by auto
    qed
  qed
qed

lemma numeral_text_Cons:
  "numeral_text (c # r) \<longleftrightarrow> is_digit c \<and> tail_ok r"
  by (cases r) (auto simp: numeral_text_def tail_ok_def sublist_uu_Cons dest: digit_not_underscore)

lemma parse_nat_eq:
  "parse_nat b = (if numeral_text b then Some (decimal b) else None)"
proof (cases b)
  case Nil
  then show ?thesis by (simp add: parse_nat_def numeral_text_def)
next
  case (Cons c r)
  then show ?thesis
    by (simp add: parse_nat_def numeral_text_Cons parse_digits_eq decimal_def)
qed

lemma py_int_eq:
  "py_int s = (if int_literal s then Some (literal_value s) else None)"
proof (cases "int_strip s")
  case Nil
  then show ?thesis by (simp add: py_int_def int_literal_def unsigned_def numeral_text_def)
next
  case (Cons c r)
  then show ?thesis
    by (simp add: py_int_def int_literal_def unsigned_def literal_value_def parse_nat_eq)
qed

lemma astype_int_eq:
  "astype_int s =
     (if \<not> int_literal s then Inl ValueError
      else if fits_int64 (literal_value s) then Inr (literal_value s)
      else Inl OverflowError)"
  by (simp add: astype_int_def py_int_eq fits_int64_def)

lemma astype_int_fails:
  "(\<exists>e. astype_int y = Inl e) \<longleftrightarrow> \<not> int_literal y \<or> \<not> fits_int64 (literal_value y)"
  by (simp add: astype_int_eq)

lemma astype_int_Inr:
  "astype_int y = Inr n \<Longrightarrow> n = literal_value y"
  by (simp add: astype_int_eq split: if_splits)

lemma literal_examples:
  "int_literal ''2001''" "literal_value ''2001'' = 2001"
  "\<not> int_literal ''circa 2001''" "\<not> int_literal ''Pending''"
  "int_literal ''9223372036854775808''"
  "literal_value ''9223372036854775808'' = 9223372036854775808"
  by (simp_all add: int_literal_def literal_value_def unsigned_def int_strip_def int_space_def
      numeral_text_def decimal_def is_digit_def digit_val_def sublist_Cons_right)

lemma clean_overflow:
  "snd (clean_same_sex_marriage_data overflow_table) = Inl OverflowError"
  by (simp add: overflow_table_def eval_defs)

lemma expansion_overflow:
  "expansion overflow_table = [(0, ''9223372036854775808'', ''Spain'')]"
  by (simp add: expansion_def overflow_table_def get_countries_from_string_def re_split_def
      str_strip_def isspace_def re_space_def)

lemma years_expanded:
  assumes "map_country (dropna_inplace df) = Inr df2"
  shows "map year (expanded df2) = map (\<lambda>(i, y, t). y) (expansion df)"
proof -
  have "map year (expanded df2) = map (fst \<circ> snd) (map fields (expanded df2))"
    by (simp add: fields_def comp_def)
  also have "\<dots> = map (\<lambda>(i, y, t). y) (expansion df)"
    by (simp only: expanded_fields[OF assms]) (simp add: comp_def case_prod_unfold)
  finally show ?thesis .
qed

lemma add_iso_rows:
  assumes "add_iso_code_to_data countries_get df = Inr (res, logged)"
  shows "\<forall>q\<in>set res. get_iso_code_from_country countries_get (country q) = Inr (Some (iso_code q))
           \<and> (\<exists>r\<in>set df. country r = country q)"
proof -
  from assms obtain df1 where df1: "assign_iso_code countries_get df = Inr df1"
    and r: "res = dropna_iso df1"
    by (auto simp: add_iso_code_to_data_def split: sum.splits)
  have "\<forall>q\<in>set (dropna_iso df1).
          get_iso_code_from_country countries_get (country q) = Inr (Some (iso_code q))
           \<and> (\<exists>r\<in>set df. country r = country q)"
    using assign_iso_code_Inr[OF df1]
    by (induction rule: list_all2_induct) (auto simp: dropna_iso_def split: option.splits)
  then show ?thesis by (simp add: r)
qed

lemma replace_value_not_key:
  "replace_value t \<noteq> ''Taiwan'' \<and> replace_value t \<noteq> ''England and Wales''"
  by (simp add: replace_value_def alias_table_def)

lemma list_all2_in_set1:
  "list_all2 P xs ys \<Longrightarrow> x \<in> set xs \<Longrightarrow> \<exists>y\<in>set ys. P x y"
  by (induction rule: list_all2_induct) auto







section \<open>The claims\<close>

text \<open>
  C1.  On the synthetic table of two rows, ("2001", "Netherlands") and
  ("Pending", "Example Country"), the cleaner followed by the resolver yields exactly one
  record, with year 2001, country "Netherlands" and code "NLD", for every library that
  resolves "Netherlands" to "NLD"; the row whose period is "Pending" is absent.  The record
  also carries the column \<open>index\<close> that \<open>reset_index()\<close> adds, here 0.
\<close>

theorem end_to_end_synthetic_table:
  assumes "countries_get ''Netherlands'' = Found \<lparr>alpha_3 = ''NLD''\<rparr>"
  shows "clean_and_resolve countries_get synthetic_table =
           Inr [\<lparr>label = 0, year = 2001, country = ''Netherlands'', index = 0,
                 iso_code = ''NLD''\<rparr>]"
  using assms
  by (simp add: clean_and_resolve_def clean_synthetic add_iso_code_to_data_def
      assign_iso_code_def get_iso_code_from_country_def dropna_iso_def)

text \<open>C1, at a library whose table holds the single entry Netherlands, NLD.\<close>

theorem end_to_end_synthetic_table_witness:
  "table_get [(''Netherlands'', ''NLD'')] ''Netherlands'' = Found \<lparr>alpha_3 = ''NLD''\<rparr> \<and>
   clean_and_resolve (table_get [(''Netherlands'', ''NLD'')]) synthetic_table =
           Inr [\<lparr>label = 0, year = 2001, country = ''Netherlands'', index = 0,
                 iso_code = ''NLD''\<rparr>]"
proof -
  have h: "table_get [(''Netherlands'', ''NLD'')] ''Netherlands'' = Found \<lparr>alpha_3 = ''NLD''\<rparr>"
    by (simp add: table_get_def)
  show ?thesis
    using h end_to_end_synthetic_table[of "table_get [(''Netherlands'', ''NLD'')]"] by simp
qed

text \<open>
  C6.  For every country name, the resolver returns the code of the entry the library
  finds and null when the library finds none, and raises in neither case; "Canada"
  resolves to "CAN" when the catalog says so, and over a catalog of exact names the result
  is the catalog's entry or null.
\<close>

theorem get_iso_code_from_country_resolves:
  "(\<forall>info. countries_get c = Found info \<longrightarrow>
        get_iso_code_from_country countries_get c = Inr (Some (alpha_3 info))) \<and>
   (countries_get c = NotFound \<longrightarrow> get_iso_code_from_country countries_get c = Inr None) \<and>
   (countries_get ''Canada'' = Found \<lparr>alpha_3 = ''CAN''\<rparr> \<longrightarrow>
        get_iso_code_from_country countries_get ''Canada'' = Inr (Some ''CAN'')) \<and>
   get_iso_code_from_country (table_get tbl) c = Inr (map_of tbl c)"
  by (auto simp: get_iso_code_from_country_def table_get_def split: option.splits)

text \<open>C6, at a catalog that holds Canada and does not hold Atlantis.\<close>

theorem get_iso_code_from_country_resolves_witness:
  "table_get [(''Canada'', ''CAN'')] ''Canada'' = Found \<lparr>alpha_3 = ''CAN''\<rparr> \<and>
   table_get [(''Canada'', ''CAN'')] ''Atlantis'' = NotFound \<and>
   get_iso_code_from_country (table_get [(''Canada'', ''CAN'')]) ''Canada'' = Inr (Some ''CAN'') \<and>
   get_iso_code_from_country (table_get [(''Canada'', ''CAN'')]) ''Atlantis'' = Inr None"
proof -
  have h1: "table_get [(''Canada'', ''CAN'')] ''Canada'' = Found \<lparr>alpha_3 = ''CAN''\<rparr>"
    and h2: "table_get [(''Canada'', ''CAN'')] ''Atlantis'' = NotFound"
    by (simp_all add: table_get_def)
  show ?thesis
    using h1 h2
      get_iso_code_from_country_resolves[of "table_get [(''Canada'', ''CAN'')]" "''Canada''"]
      get_iso_code_from_country_resolves[of "table_get [(''Canada'', ''CAN'')]" "''Atlantis''"]
    by simp
qed

text \<open>
  C8, as claimed: the list of unmatched names is sorted and deduplicated.  Two rows with
  the same unmatched name give a list that holds the name twice.
\<close>

theorem unmatched_list_deduplicated_counterexample:
  "add_iso_code_to_data (table_get []) atlantis_twice = Inr ([], [''Atlantis'', ''Atlantis''])
   \<and> \<not> distinct [''Atlantis'', ''Atlantis'']"
  by (simp add: add_iso_code_to_data_def assign_iso_code_def get_iso_code_from_country_def
      table_get_def atlantis_twice_def dropna_iso_def unmatched_countries_str_def
      unmatched_raw_def)

text \<open>
  C8, amended: the list of unmatched names that is logged is sorted and holds every
  unmatched name as many times as rows carry it (it is a sorted rearrangement of the
  column of the unmatched rows).
\<close>

theorem unmatched_list_sorted:
  assumes "add_iso_code_to_data countries_get df = Inr (out, logged)"
  shows "sorted logged \<and>
         mset logged = mset (map country (filter (\<lambda>r.
             get_iso_code_from_country countries_get (country r) = Inr None) df))"
proof -
  from assms obtain df1 where df1: "assign_iso_code countries_get df = Inr df1"
    and l: "logged = unmatched_countries_str df1"
    by (auto simp: add_iso_code_to_data_def split: sum.splits)
  show ?thesis
    by (simp add: l unmatched_countries_str_def unmatched_raw_assign[OF assign_iso_code_Inr[OF df1]])
qed

text \<open>C8 amended, at the frame of two rows for Atlantis.\<close>

theorem unmatched_list_sorted_witness:
  "add_iso_code_to_data (table_get []) atlantis_twice = Inr ([], [''Atlantis'', ''Atlantis''])
   \<and> sorted [''Atlantis'', ''Atlantis'']
   \<and> mset [''Atlantis'', ''Atlantis''] = mset (map country (filter (\<lambda>r.
             get_iso_code_from_country (table_get []) (country r) = Inr None) atlantis_twice))"
proof -
  have h: "add_iso_code_to_data (table_get []) atlantis_twice = Inr ([], [''Atlantis'', ''Atlantis''])"
    by (simp add: add_iso_code_to_data_def assign_iso_code_def get_iso_code_from_country_def
      table_get_def atlantis_twice_def dropna_iso_def unmatched_countries_str_def
      unmatched_raw_def)
  show ?thesis using h unmatched_list_sorted[OF h] by simp
qed

text \<open>
  C10.  Both stages change the frame they are given.  After
  \<open>clean_same_sex_marriage_data\<close> the caller's synthetic table differs from what it was:
  its \<open>country\<close> column holds lists of tokens.  After \<open>add_iso_code_to_data\<close> the frame of
  two rows for Atlantis, which is the object the function returns, has no row left.
\<close>

theorem frames_changed_in_place:
  "fst (clean_same_sex_marriage_data synthetic_table) \<noteq> synthetic_table \<and>
   fst (clean_same_sex_marriage_data synthetic_table) =
     [\<lparr>label = 0, year = Some ''2001'', country = Some (Tokens [''Netherlands''])\<rparr>,
      \<lparr>label = 1, year = Some ''Pending'', country = Some (Tokens [''Example Country''])\<rparr>] \<and>
   length atlantis_twice = 2 \<and>
   map_sum id (length \<circ> fst) (add_iso_code_to_data (table_get []) atlantis_twice) = Inr 0"
proof -
  have a: "fst (clean_same_sex_marriage_data synthetic_table) =
     [\<lparr>label = 0, year = Some ''2001'', country = Some (Tokens [''Netherlands''])\<rparr>,
      \<lparr>label = 1, year = Some ''Pending'', country = Some (Tokens [''Example Country''])\<rparr>]"
    by (simp add: clean_synthetic)
  have b: "map_sum id (length \<circ> fst) (add_iso_code_to_data (table_get []) atlantis_twice) = Inr 0"
    by (simp add: add_iso_code_to_data_def assign_iso_code_def
      get_iso_code_from_country_def table_get_def atlantis_twice_def dropna_iso_def)
  have c: "length atlantis_twice = 2"
    by (simp add: atlantis_twice_def)
  show ?thesis
    unfolding a b c by (simp add: synthetic_table_def)
qed

text \<open>
  C4.  Whenever the cleaner returns, its output lines up, record by record and in order,
  with the expansion of the input: one record per extracted token, rows in document order
  and tokens in extraction order within a row; each record carries the label of its row
  in \<open>index\<close>, the period of its row (coerced to an integer) and the token (after the manual
  renaming).  The row "Spain (2005) Portugal (2010)" with period "2005" yields the record
  for Spain, then the record for Portugal, both with year 2005.
\<close>

theorem row_expander_order:
  assumes "snd (clean_same_sex_marriage_data df) = Inr out"
  shows "list_all2 (\<lambda>q (i, y, t). index q = i \<and> astype_int y = Inr (year q) \<and>
                      country q = replace_value t) out (expansion df) \<and>
         snd (clean_same_sex_marriage_data spain_portugal) =
           Inr [\<lparr>label = 0, year = 2005, country = ''Spain'', index = 0\<rparr>,
                \<lparr>label = 1, year = 2005, country = ''Portugal'', index = 0\<rparr>]"
  using clean_Inr[OF assms] by (simp add: clean_spain_portugal)

text \<open>C4, at the frame of the single row for Spain and Portugal.\<close>

theorem row_expander_order_witness:
  "snd (clean_same_sex_marriage_data spain_portugal) =
           Inr [\<lparr>label = 0, year = 2005, country = ''Spain'', index = 0\<rparr>,
                \<lparr>label = 1, year = 2005, country = ''Portugal'', index = 0\<rparr>] \<and>
   list_all2 (\<lambda>q (i, y, t). index q = i \<and> astype_int y = Inr (year q) \<and>
                      country q = replace_value t)
      [\<lparr>label = 0, year = 2005, country = ''Spain'', index = 0\<rparr>,
       \<lparr>label = 1, year = 2005, country = ''Portugal'', index = 0\<rparr>]
      [(0, ''2005'', ''Spain''), (0, ''2005'', ''Portugal'')]"
proof -
  have h: "snd (clean_same_sex_marriage_data spain_portugal) =
           Inr [\<lparr>label = 0, year = 2005, country = ''Spain'', index = 0\<rparr>,
                \<lparr>label = 1, year = 2005, country = ''Portugal'', index = 0\<rparr>]"
    by (simp add: clean_spain_portugal)
  show ?thesis using h row_expander_order[OF h] by (simp only: expansion_examples simp_thms)
qed

text \<open>
  C5, as claimed: the coercion raises if and only if some remaining period is
  non-numeric.  The period "9223372036854775808" is numeric, the only record of its table
  remains after the "Pending" filter, and the coercion raises: the number does not fit
  the 64-bit integer of the new column.
\<close>

theorem coercion_hard_stop_counterexample:
  "snd (clean_same_sex_marriage_data overflow_table) = Inl OverflowError \<and>
   expansion overflow_table = [(0, ''9223372036854775808'', ''Spain'')] \<and>
   int_literal ''9223372036854775808''"
  by (simp add: clean_overflow expansion_overflow literal_examples(5))

text \<open>
  C5, amended: on a frame of text cells, the records whose period is "Pending" are dropped
  before the coercion (no remaining record has that period, which is itself non-numeric),
  and the cleaner raises if and only if some remaining period is non-numeric (not an
  integer literal) or names an integer outside the signed 64-bit range; when the cleaner
  returns, every remaining record is in the output, in order, with the value of its
  period: none is skipped.
\<close>

theorem coercion_hard_stop:
  assumes "\<forall>r\<in>set df. \<forall>ts. country r \<noteq> Some (Tokens ts)"
  shows "((\<exists>e. snd (clean_same_sex_marriage_data df) = Inl e) \<longleftrightarrow>
            (\<exists>(i, y, t)\<in>set (expansion df).
                \<not> int_literal y \<or> \<not> fits_int64 (literal_value y))) \<and>
         (\<forall>(i, y, t)\<in>set (expansion df). y \<noteq> ''Pending'') \<and>
         (\<forall>out. snd (clean_same_sex_marriage_data df) = Inr out \<longrightarrow>
                length out = length (expansion df) \<and>
                map year out = map (\<lambda>(i, y, t). literal_value y) (expansion df)) \<and>
         \<not> int_literal ''Pending''"
proof -
  from map_country_scraped[OF assms] obtain df2
    where m: "map_country (dropna_inplace df) = Inr df2" by blast
  then have c: "snd (clean_same_sex_marriage_data df) = astype_int_year (expanded df2)"
    by (simp add: clean_same_sex_marriage_data_def)
  have "(\<exists>e. astype_int_year (expanded df2) = Inl e) \<longleftrightarrow>
        (\<exists>y\<in>set (map year (expanded df2)). \<exists>e. astype_int y = Inl e)"
    by (simp add: astype_int_year_Inl)
  also have "\<dots> \<longleftrightarrow> (\<exists>(i, y, t)\<in>set (expansion df). \<exists>e. astype_int y = Inl e)"
    by (simp only: years_expanded[OF m]) (auto simp: case_prod_unfold)
  also have "\<dots> \<longleftrightarrow> (\<exists>(i, y, t)\<in>set (expansion df).
                \<not> int_literal y \<or> \<not> fits_int64 (literal_value y))"
    by (simp only: astype_int_fails)
  finally have 1: "(\<exists>e. snd (clean_same_sex_marriage_data df) = Inl e) \<longleftrightarrow>
            (\<exists>(i, y, t)\<in>set (expansion df).
                \<not> int_literal y \<or> \<not> fits_int64 (literal_value y))"
    by (simp only: c)
  have 2: "\<forall>(i, y, t)\<in>set (expansion df). y \<noteq> ''Pending''"
    by (auto simp: in_expansion)
  have 3: "length out = length (expansion df) \<and>
           map year out = map (\<lambda>(i, y, t). literal_value y) (expansion df)"
    if "snd (clean_same_sex_marriage_data df) = Inr out" for out
    using clean_Inr[OF that]
    by (induction rule: list_all2_induct) (auto dest: astype_int_Inr)
  from 1 2 3 literal_examples(4) show ?thesis by blast
qed

text \<open>
  C5 amended, at the synthetic table (which cleans), at a table whose period is
  "circa 2001" (not a literal) and at a table whose period is 2 to the power 63 (out of
  range).
\<close>

theorem coercion_hard_stop_witness:
  "snd (clean_same_sex_marriage_data synthetic_table) =
     Inr [\<lparr>label = 0, year = 2001, country = ''Netherlands'', index = 0\<rparr>] \<and>
   expansion synthetic_table = [(0, ''2001'', ''Netherlands'')] \<and>
   int_literal ''2001'' \<and> literal_value ''2001'' = 2001 \<and> fits_int64 2001 \<and>
   snd (clean_same_sex_marriage_data bad_period_table) = Inl ValueError \<and>
   expansion bad_period_table = [(0, ''circa 2001'', ''Spain'')] \<and>
   \<not> int_literal ''circa 2001'' \<and>
   snd (clean_same_sex_marriage_data overflow_table) = Inl OverflowError \<and>
   expansion overflow_table = [(0, ''9223372036854775808'', ''Spain'')] \<and>
   int_literal ''9223372036854775808'' \<and>
   \<not> fits_int64 (literal_value ''9223372036854775808'')"
proof -
  have h1: "\<forall>r\<in>set synthetic_table. \<forall>ts. country r \<noteq> Some (Tokens ts)"
    by (simp add: synthetic_table_def)
  have h2: "\<forall>r\<in>set bad_period_table. \<forall>ts. country r \<noteq> Some (Tokens ts)"
    by (simp add: bad_period_table_def)
  have h3: "\<forall>r\<in>set overflow_table. \<forall>ts. country r \<noteq> Some (Tokens ts)"
    by (simp add: overflow_table_def)
  from coercion_hard_stop[OF h1]
  have a: "map year [\<lparr>label = 0, year = 2001 :: int, country = ''Netherlands'', index = 0\<rparr>]
           = map (\<lambda>(i, y, t). literal_value y) (expansion synthetic_table)"
    using clean_synthetic by simp
  from coercion_hard_stop[OF h2]
  have b: "\<exists>(i, y, t)\<in>set (expansion bad_period_table).
                \<not> int_literal y \<or> \<not> fits_int64 (literal_value y)"
    using clean_bad_period by blast
  from coercion_hard_stop[OF h3]
  have c: "\<exists>(i, y, t)\<in>set (expansion overflow_table).
                \<not> int_literal y \<or> \<not> fits_int64 (literal_value y)"
    using clean_overflow by blast
  from a have a': "literal_value ''2001'' = 2001"
    by (simp add: expansion_examples)
  from c have c': "\<not> fits_int64 (literal_value ''9223372036854775808'')"
    by (simp add: expansion_overflow literal_examples(5))
  from b have b': "\<not> int_literal ''circa 2001''"
    by (simp add: expansion_examples literal_examples(1,2) fits_int64_def)
       (simp add: literal_examples(3))
  have f: "fits_int64 2001" by (simp add: fits_int64_def)
  from a' b' c' f show ?thesis
    by (simp add: clean_synthetic clean_bad_period clean_overflow expansion_examples
        expansion_overflow literal_examples(1,5))
qed

text \<open>
  C7.  The manual renaming maps "Taiwan" to "Taiwan, Province of China" and
  "England and Wales" to "United Kingdom"; the countries of the cleaner's output are the
  renamed tokens; and in the result of the cleaner followed by the resolver no record
  has one of the two old names, the code of each record being the one the library gives
  for the renamed country.
\<close>

theorem alias_before_resolution:
  "replace_value ''Taiwan'' = ''Taiwan, Province of China'' \<and>
   replace_value ''England and Wales'' = ''United Kingdom'' \<and>
   (\<forall>out. snd (clean_same_sex_marriage_data df) = Inr out \<longrightarrow>
      map country out = map (\<lambda>(i, y, t). replace_value t) (expansion df)) \<and>
   (\<forall>res. clean_and_resolve countries_get df = Inr res \<longrightarrow>
      (\<forall>q\<in>set res. country q \<noteq> ''Taiwan'' \<and> country q \<noteq> ''England and Wales'' \<and>
         get_iso_code_from_country countries_get (country q) = Inr (Some (iso_code q))))"
proof -
  have 1: "map country out = map (\<lambda>(i, y, t). replace_value t) (expansion df)"
    if "snd (clean_same_sex_marriage_data df) = Inr out" for out
    using clean_Inr[OF that]
    by (induction rule: list_all2_induct) auto
  have 2: "country q \<noteq> ''Taiwan'' \<and> country q \<noteq> ''England and Wales'' \<and>
         get_iso_code_from_country countries_get (country q) = Inr (Some (iso_code q))"
    if res: "clean_and_resolve countries_get df = Inr res" and q: "q \<in> set res" for res q
  proof -
    from res obtain out where out: "snd (clean_same_sex_marriage_data df) = Inr out"
      and m: "map_sum id fst (add_iso_code_to_data countries_get out) = Inr res"
      by (auto simp: clean_and_resolve_def split: sum.splits)
    from m obtain logged where a: "add_iso_code_to_data countries_get out = Inr (res, logged)"
      by (cases "add_iso_code_to_data countries_get out") auto
    from add_iso_rows[OF a] q obtain r where
      g: "get_iso_code_from_country countries_get (country q) = Inr (Some (iso_code q))"
      and r: "r \<in> set out" "country r = country q" by blast
    from r(1) have "country r \<in> set (map country out)" by simp
    then obtain e where "country r = (\<lambda>(i, y, t). replace_value t) e"
      unfolding 1[OF out] by auto
    then have "country r \<noteq> ''Taiwan'' \<and> country r \<noteq> ''England and Wales''"
      using replace_value_not_key by (cases e) simp
    with g r(2) show ?thesis by simp
  qed
  from 1 2 show ?thesis by (simp add: replace_value_def alias_table_def)
qed

text \<open>
  C7, at the table of the single row "Taiwan (2019)" and a catalog that knows only
  "Taiwan, Province of China".
\<close>

theorem alias_before_resolution_witness:
  "snd (clean_same_sex_marriage_data taiwan_table) =
      Inr [\<lparr>label = 0, year = 2019, country = ''Taiwan, Province of China'', index = 0\<rparr>] \<and>
   expansion taiwan_table = [(0, ''2019'', ''Taiwan'')] \<and>
   clean_and_resolve (table_get [(''Taiwan, Province of China'', ''TWN'')]) taiwan_table =
      Inr [\<lparr>label = 0, year = 2019, country = ''Taiwan, Province of China'', index = 0,
            iso_code = ''TWN''\<rparr>] \<and>
   get_iso_code_from_country (table_get [(''Taiwan, Province of China'', ''TWN'')])
      ''Taiwan, Province of China'' = Inr (Some ''TWN'') \<and>
   get_iso_code_from_country (table_get [(''Taiwan, Province of China'', ''TWN'')])
      ''Taiwan'' = Inr None"
proof -
  have h: "clean_and_resolve (table_get [(''Taiwan, Province of China'', ''TWN'')]) taiwan_table =
      Inr [\<lparr>label = 0, year = 2019, country = ''Taiwan, Province of China'', index = 0,
            iso_code = ''TWN''\<rparr>]"
    by (simp add: clean_and_resolve_def clean_taiwan add_iso_code_to_data_def
      assign_iso_code_def get_iso_code_from_country_def dropna_iso_def table_get_def)
  from alias_before_resolution[of taiwan_table
        "table_get [(''Taiwan, Province of China'', ''TWN'')]"] h
  have "\<forall>q\<in>set [\<lparr>label = 0, year = 2019 :: int, country = ''Taiwan, Province of China'',
                    index = 0, iso_code = ''TWN''\<rparr>].
         get_iso_code_from_country (table_get [(''Taiwan, Province of China'', ''TWN'')])
           (country q) = Inr (Some (iso_code q))"
    by blast
  then have g: "get_iso_code_from_country (table_get [(''Taiwan, Province of China'', ''TWN'')])
      ''Taiwan, Province of China'' = Inr (Some ''TWN'')"
    by simp
  have n: "get_iso_code_from_country (table_get [(''Taiwan, Province of China'', ''TWN'')])
      ''Taiwan'' = Inr None"
    by (simp add: get_iso_code_from_country_def table_get_def)
  from h g n show ?thesis by (simp add: clean_taiwan expansion_examples)
qed

text \<open>
  C9.  The "Pending" filter of line 61 is idempotent, no record it returns has the period
  "Pending", and every record of the cleaner's output comes from a row of the input whose
  period is not "Pending".
\<close>

theorem pending_filter_idempotent:
  "loc_not_pending (loc_not_pending xs) = loc_not_pending xs \<and>
   (\<forall>r\<in>set (loc_not_pending xs). year r \<noteq> ''Pending'') \<and>
   (\<forall>out. snd (clean_same_sex_marriage_data df) = Inr out \<longrightarrow>
      (\<forall>q\<in>set out. \<exists>r\<in>set df. label r = index q \<and>
          (\<exists>y. year r = Some y \<and> y \<noteq> ''Pending'' \<and> astype_int y = Inr (year q))))"
proof -
  have 3: "\<exists>r\<in>set df. label r = index q \<and>
          (\<exists>y. year r = Some y \<and> y \<noteq> ''Pending'' \<and> astype_int y = Inr (year q))"
    if out: "snd (clean_same_sex_marriage_data df) = Inr out" and q: "q \<in> set out" for out q
  proof -
    from list_all2_in_set1[OF clean_Inr[OF out] q] obtain e where e: "e \<in> set (expansion df)"
      and p: "(\<lambda>q (i, y, t). index q = i \<and> astype_int y = Inr (year q) \<and>
                      country q = replace_value t) q e"
      by blast
    obtain i y t where [simp]: "e = (i, y, t)" by (cases e)
    from e show ?thesis using p by (auto simp: in_expansion)
  qed
  then show ?thesis by (auto simp: loc_not_pending_def)
qed

text \<open>C9, at two rows of which one is pending, and at the synthetic table.\<close>

theorem pending_filter_idempotent_witness:
  "loc_not_pending pending_rows =
     [\<lparr>label = 0, year = ''2001'', country = ''Netherlands'', index = 0\<rparr>] \<and>
   loc_not_pending (loc_not_pending pending_rows) = loc_not_pending pending_rows \<and>
   snd (clean_same_sex_marriage_data synthetic_table) =
     Inr [\<lparr>label = 0, year = 2001, country = ''Netherlands'', index = 0\<rparr>] \<and>
   (\<exists>r\<in>set synthetic_table. label r = 0 \<and>
          (\<exists>y. year r = Some y \<and> y \<noteq> ''Pending'' \<and> astype_int y = Inr 2001))"
proof -
  have h: "snd (clean_same_sex_marriage_data synthetic_table) =
     Inr [\<lparr>label = 0, year = 2001, country = ''Netherlands'', index = 0\<rparr>]"
    by (simp add: clean_synthetic)
  have l: "loc_not_pending pending_rows =
     [\<lparr>label = 0, year = ''2001'', country = ''Netherlands'', index = 0\<rparr>]"
    by (simp add: loc_not_pending_def pending_rows_def)
  from pending_filter_idempotent[of pending_rows synthetic_table]
  have a: "loc_not_pending (loc_not_pending pending_rows) = loc_not_pending pending_rows"
    and c: "\<forall>out. snd (clean_same_sex_marriage_data synthetic_table) = Inr out \<longrightarrow>
      (\<forall>q\<in>set out. \<exists>r\<in>set synthetic_table. label r = index q \<and>
          (\<exists>y. year r = Some y \<and> y \<noteq> ''Pending'' \<and> astype_int y = Inr (year q)))"
    by blast+
  from c h have "\<forall>q\<in>set [\<lparr>label = 0, year = 2001 :: int, country = ''Netherlands'', index = 0\<rparr>].
      \<exists>r\<in>set synthetic_table. label r = index q \<and>
          (\<exists>y. year r = Some y \<and> y \<noteq> ''Pending'' \<and> astype_int y = Inr (year q))"
    by blast
  then have d: "\<exists>r\<in>set synthetic_table. label r = 0 \<and>
          (\<exists>y. year r = Some y \<and> y \<noteq> ''Pending'' \<and> astype_int y = Inr 2001)"
    by simp
  from h l a d show ?thesis by blast
qed




text \<open>
  C3.  Every token returned is non-empty after trimming, the fragments that become empty
  being discarded.  The source tests \<open>string.strip() != ''\<close> on the fragment as split and
  removes "[nationwide]" afterwards, so a fragment made of the tag passes the test and
  gives the empty token: on "[nationwide]" the parser returns one empty token, and on
  "Massachusetts (2004) [nationwide] (2015)" it returns "Massachusetts" and an empty
  token.  On the empty string it returns the empty sequence, as claimed.
\<close>

theorem parser_empty_token:
  "get_countries_from_string ''[nationwide]'' = [[]] \<and>
   get_countries_from_string ''Massachusetts (2004) [nationwide] (2015)'' =
     [''Massachusetts'', []] \<and>
   str_strip [] = [] \<and>
   get_countries_from_string [] = []"
  by (simp add: get_countries_from_string_def re_split_def str_strip_def isspace_def
      re_space_def)

end
